theory Spec2Isabelle
  imports Complex_Main
begin

section \<open>Strings\<close>

text \<open>
  A JavaScript string is a sequence of UTF-16 code units. A code unit is modelled as a
  natural number (below 65536 in every string that exists; the functions are defined on
  all of them), and \<open>js\<close> turns an ASCII literal into the string of its character codes.
\<close>

type_synonym jsstring = "nat list"

definition js :: "string \<Rightarrow> jsstring" where
  "js s = map of_char s"

abbreviation SPACE :: nat where
  "SPACE \<equiv> 32"

definition isUpper :: "nat \<Rightarrow> bool" where
  \<comment> \<open>the character class \<open>[A-Z]\<close>\<close>
  "isUpper c = (65 \<le> c \<and> c \<le> 90)"

definition isDigit :: "nat \<Rightarrow> bool" where
  \<comment> \<open>the character class \<open>\d\<close> (no flags: ASCII digits only)\<close>
  "isDigit c = (48 \<le> c \<and> c \<le> 57)"

text \<open>
  The code units that \<open>trim()\<close> removes are the WhiteSpace and LineTerminator code points
  of ECMAScript: TAB, LF, VT, FF, CR, SPACE, U+00A0, U+1680, U+2000 to U+200A, U+2028,
  U+2029, U+202F, U+205F, U+3000 and U+FEFF.
\<close>

definition isWhitespace :: "nat \<Rightarrow> bool" where
  "isWhitespace c =
     (c \<in> set [0x09, 0x0A, 0x0B, 0x0C, 0x0D, 0x20, 0xA0, 0x1680,
                0x2000, 0x2001, 0x2002, 0x2003, 0x2004, 0x2005, 0x2006, 0x2007, 0x2008,
                0x2009, 0x200A, 0x2028, 0x2029, 0x202F, 0x205F, 0x3000, 0xFEFF])"

definition trim :: "jsstring \<Rightarrow> jsstring" where
  "trim s = rev (dropWhile isWhitespace (rev (dropWhile isWhitespace s)))"

text \<open>
  \<open>toUpperCase()\<close> follows the case mapping of Unicode. On a string of ASCII code units
  it maps \<open>a\<close>..\<open>z\<close> to \<open>A\<close>..\<open>Z\<close> and changes nothing else. The mapping of a string with
  other code units (where one code unit can become several) is a table of the runtime,
  not of this repository: it is the parameter \<open>unicodeUpper\<close> of the model, and every
  theorem holds whatever this function is.
\<close>

definition asciiUpper :: "nat \<Rightarrow> nat" where
  "asciiUpper c = (if 97 \<le> c \<and> c \<le> 122 then c - 32 else c)"

definition toUpperCase :: "(jsstring \<Rightarrow> jsstring) \<Rightarrow> jsstring \<Rightarrow> jsstring" where
  "toUpperCase unicodeUpper s =
     (if list_all (\<lambda>c. c < 128) s then map asciiUpper s else unicodeUpper s)"

text \<open>\<open>s.replace(/ +/g, ' ')\<close>: every maximal run of SPACE characters becomes one SPACE.
  A SPACE that is followed by another SPACE is dropped, the last one of a run is kept.\<close>

fun collapseSpaces :: "jsstring \<Rightarrow> jsstring" where
  "collapseSpaces [] = []"
| "collapseSpaces [c] = [c]"
| "collapseSpaces (c # d # cs) =
     (if c = SPACE \<and> d = SPACE then collapseSpaces (d # cs)
      else c # collapseSpaces (d # cs))"

text \<open>\<open>s.startsWith(p)\<close> and \<open>s.includes(p)\<close>.\<close>

fun startsWith :: "jsstring \<Rightarrow> jsstring \<Rightarrow> bool" where
  "startsWith s [] = True"
| "startsWith [] (p # ps) = False"
| "startsWith (c # cs) (p # ps) = (c = p \<and> startsWith cs ps)"

fun includesStr :: "jsstring \<Rightarrow> jsstring \<Rightarrow> bool" where
  "includesStr [] p = (p = [])"
| "includesStr (c # cs) p = (startsWith (c # cs) p \<or> includesStr cs p)"

text \<open>\<open>s.split(' ')[0]\<close>: the part of \<open>s\<close> before its first SPACE, all of \<open>s\<close> when it
  has none (and the empty string for the empty string).\<close>

definition splitFirst :: "jsstring \<Rightarrow> jsstring" where
  "splitFirst s = takeWhile (\<lambda>c. c \<noteq> SPACE) s"

text \<open>The tests \<open>/[A-Z]$/\<close>, \<open>/\d/\<close>, \<open>/\d$/\<close> and the replacement \<open>s.replace(/\d+$/, '')\<close>.\<close>

definition endsWithUpper :: "jsstring \<Rightarrow> bool" where
  "endsWithUpper s = (s \<noteq> [] \<and> isUpper (last s))"

definition containsDigit :: "jsstring \<Rightarrow> bool" where
  "containsDigit s = list_ex isDigit s"

definition endsWithDigit :: "jsstring \<Rightarrow> bool" where
  "endsWithDigit s = (s \<noteq> [] \<and> isDigit (last s))"

definition stripTrailingDigits :: "jsstring \<Rightarrow> jsstring" where
  "stripTrailingDigits s = rev (dropWhile isDigit (rev s))"

text \<open>\<open>[...new Set(xs)]\<close>: the elements of \<open>xs\<close> in the order of their first occurrence.\<close>

definition newSet :: "'a list \<Rightarrow> 'a list" where
  "newSet xs = foldl (\<lambda>acc x. if x \<in> set acc then acc else acc @ [x]) [] xs"

section \<open>The hierarchy generator\<close>

text \<open>
  The \<open>while (current.length > 1)\<close> loop of \<open>getPostcodesToTry\<close>, on its two variables
  \<open>current\<close> and \<open>hierarchy\<close>; a \<open>break\<close> returns the hierarchy built so far.
\<close>

function shorten :: "jsstring \<Rightarrow> jsstring list \<Rightarrow> jsstring list" where
  "shorten current hierarchy =
     (if length current > 1 then
        (if endsWithUpper current \<and> containsDigit current then
           shorten (butlast current) (hierarchy @ [butlast current])
         else if endsWithDigit current then
           (if length (stripTrailingDigits current) > 0 \<and> stripTrailingDigits current \<noteq> current
            then shorten (stripTrailingDigits current) (hierarchy @ [stripTrailingDigits current])
            else hierarchy)
         else hierarchy)
      else hierarchy)"
  by pat_completeness auto
termination
proof (relation "measure (\<lambda>(current, hierarchy). length current)")
  show "wf (measure (\<lambda>(current, hierarchy). length current))" by simp
next
  fix current :: jsstring and hierarchy :: "jsstring list"
  assume "1 < length current"
  then show "((butlast current, hierarchy @ [butlast current]), (current, hierarchy))
      \<in> measure (\<lambda>(current, hierarchy). length current)"
    by simp
next
  fix current :: jsstring and hierarchy :: "jsstring list"
  assume "0 < length (stripTrailingDigits current) \<and> stripTrailingDigits current \<noteq> current"
  then have neq: "rev (dropWhile isDigit (rev current)) \<noteq> current"
    by (simp add: stripTrailingDigits_def)
  have "length (dropWhile isDigit (rev current)) < length current"
  proof (cases "rev current")
    case Nil
    with neq show ?thesis by simp
  next
    case (Cons c cs)
    show ?thesis
    proof (cases "isDigit c")
      case True
      have "length (dropWhile isDigit cs) \<le> length cs" by (rule length_dropWhile_le)
      moreover have "length current = Suc (length cs)"
        using Cons by (metis length_Cons length_rev)
      ultimately show ?thesis using Cons True by simp
    next
      case False
      with Cons have "dropWhile isDigit (rev current) = rev current" by simp
      with neq show ?thesis by simp
    qed
  qed
  then show "((stripTrailingDigits current, hierarchy @ [stripTrailingDigits current]),
      (current, hierarchy)) \<in> measure (\<lambda>(current, hierarchy). length current)"
    by (simp add: stripTrailingDigits_def)
qed

definition cleaned :: "(jsstring \<Rightarrow> jsstring) \<Rightarrow> jsstring \<Rightarrow> jsstring" where
  \<comment> \<open>\<open>postcode.trim().toUpperCase().replace(/ +/g, ' ')\<close>\<close>
  "cleaned unicodeUpper postcode = collapseSpaces (toUpperCase unicodeUpper (trim postcode))"

definition getPostcodesToTry :: "(jsstring \<Rightarrow> jsstring) \<Rightarrow> jsstring \<Rightarrow> jsstring list" where
  "getPostcodesToTry unicodeUpper postcode =
     (let cleaned = cleaned unicodeUpper postcode;
          hierarchy = [];
          hierarchy = (if includesStr cleaned [SPACE] then hierarchy @ [cleaned] else hierarchy);
          current = splitFirst cleaned;
          hierarchy = hierarchy @ [current];
          hierarchy = shorten current hierarchy
      in newSet hierarchy)"

text \<open>
  The normal form as the specification words it, for comparison with \<open>cleaned\<close>: every
  run of characters of a class is collapsed to one SPACE, and everything else is kept.
  The specification takes white space of any kind as the class.
\<close>

function collapseRuns_spec :: "(nat \<Rightarrow> bool) \<Rightarrow> jsstring \<Rightarrow> jsstring" where
  "collapseRuns_spec P [] = []"
| "collapseRuns_spec P (c # cs) =
     (if P c then SPACE # collapseRuns_spec P (dropWhile P cs)
      else c # collapseRuns_spec P cs)"
  by pat_completeness auto
termination
proof (relation "measure (\<lambda>(P, s). length s)")
  show "wf (measure (\<lambda>(P, s). length s))" by simp
next
  fix P :: "nat \<Rightarrow> bool" and c :: nat and cs :: jsstring
  have "length (dropWhile P cs) \<le> length cs" by (rule length_dropWhile_le)
  then show "((P, dropWhile P cs), (P, c # cs)) \<in> measure (\<lambda>(P, s). length s)" by simp
next
  fix P :: "nat \<Rightarrow> bool" and c :: nat and cs :: jsstring
  show "((P, cs), (P, c # cs)) \<in> measure (\<lambda>(P, s). length s)" by simp
qed

definition normalize_spec :: "(jsstring \<Rightarrow> jsstring) \<Rightarrow> jsstring \<Rightarrow> jsstring" where
  "normalize_spec unicodeUpper postcode =
     collapseRuns_spec isWhitespace (toUpperCase unicodeUpper (trim postcode))"

text \<open>
  An earlier revision of the same service is kept in the repository. Its generator differs
  in the loop: the bound is \<open>current.length > 2\<close>, and after stripping the trailing digits
  it goes on without a \<open>break\<close>, pushing the remainder when it is not empty.
\<close>

function shorten_rev13 :: "jsstring \<Rightarrow> jsstring list \<Rightarrow> jsstring list" where
  "shorten_rev13 current hierarchy =
     (if length current > 2 then
        (if endsWithUpper current \<and> containsDigit current then
           shorten_rev13 (butlast current) (hierarchy @ [butlast current])
         else if endsWithDigit current then
           (if length (stripTrailingDigits current) > 0
            then shorten_rev13 (stripTrailingDigits current)
                   (hierarchy @ [stripTrailingDigits current])
            else shorten_rev13 (stripTrailingDigits current) hierarchy)
         else hierarchy)
      else hierarchy)"
  by pat_completeness auto
termination
proof (relation "measure (\<lambda>(current, hierarchy). length current)")
  show "wf (measure (\<lambda>(current, hierarchy). length current))" by simp
next
  fix current :: jsstring and hierarchy :: "jsstring list"
  assume "2 < length current"
  then show "((butlast current, hierarchy @ [butlast current]), (current, hierarchy))
      \<in> measure (\<lambda>(current, hierarchy). length current)"
    by simp
next
  fix current :: jsstring and hierarchy :: "jsstring list"
  assume "endsWithDigit current"
  then obtain c cs where rc: "rev current = c # cs" and d: "isDigit c"
    by (cases "rev current") (auto simp: endsWithDigit_def last_rev [symmetric] simp del: last_rev)
  have "length (dropWhile isDigit cs) \<le> length cs" by (rule length_dropWhile_le)
  moreover have "length current = Suc (length cs)"
    using rc by (metis length_Cons length_rev)
  ultimately have "length (stripTrailingDigits current) < length current"
    using rc d by (simp add: stripTrailingDigits_def)
  then show "((stripTrailingDigits current, hierarchy @ [stripTrailingDigits current]),
      (current, hierarchy)) \<in> measure (\<lambda>(current, hierarchy). length current)"
    and "((stripTrailingDigits current, hierarchy), (current, hierarchy))
      \<in> measure (\<lambda>(current, hierarchy). length current)"
    by simp_all
qed

definition getPostcodesToTry_rev13 :: "(jsstring \<Rightarrow> jsstring) \<Rightarrow> jsstring \<Rightarrow> jsstring list" where
  "getPostcodesToTry_rev13 unicodeUpper postcode =
     (let cleaned = cleaned unicodeUpper postcode;
          hierarchy = [];
          hierarchy = (if includesStr cleaned [SPACE] then hierarchy @ [cleaned] else hierarchy);
          current = splitFirst cleaned;
          hierarchy = hierarchy @ [current];
          hierarchy = shorten_rev13 current hierarchy
      in newSet hierarchy)"

section \<open>Numbers\<close>

text \<open>
  A JavaScript number is an IEEE 754 double. A finite one is modelled as the real number
  it stands for, and an arithmetic operation as the exact operation followed by the
  rounding to the nearest double, ties to the one with an even significand. The unit in
  the last place of \<open>x\<close> is \<open>2\<close> to the power of its binary exponent minus 52, the exponent
  being at least -1022 (below it the doubles are subnormal). Overflow to an infinity is
  not modelled: a result beyond the largest double is the number that a format without
  an upper bound on the exponent would give, and it compares with the finite numbers as
  the infinity does.
\<close>

definition roundHalfEven :: "real \<Rightarrow> int" where
  "roundHalfEven r =
     (if r - of_int \<lfloor>r\<rfloor> < 1 / 2 then \<lfloor>r\<rfloor>
      else if 1 / 2 < r - of_int \<lfloor>r\<rfloor> then \<lfloor>r\<rfloor> + 1
      else if even \<lfloor>r\<rfloor> then \<lfloor>r\<rfloor> else \<lfloor>r\<rfloor> + 1)"

definition binade :: "real \<Rightarrow> int" where
  "binade x = max \<lfloor>log 2 \<bar>x\<bar>\<rfloor> (- 1022)"

definition ulp :: "real \<Rightarrow> real" where
  "ulp x = 2 powr (of_int (binade x) - 52)"

definition roundToDouble :: "real \<Rightarrow> real" where
  "roundToDouble x = (if x = 0 then 0 else of_int (roundHalfEven (x / ulp x)) * ulp x)"

definition jsAdd :: "real \<Rightarrow> real \<Rightarrow> real" where
  "jsAdd x y = roundToDouble (x + y)"

definition jsSub :: "real \<Rightarrow> real \<Rightarrow> real" where
  "jsSub x y = roundToDouble (x - y)"

definition jsMul :: "real \<Rightarrow> real \<Rightarrow> real" where
  "jsMul x y = roundToDouble (x * y)"

section \<open>The candidate scorer\<close>

text \<open>
  A search result, with the fields that the service reads. \<open>class\<close> and \<open>type\<close> are
  \<open>result_class\<close> and \<open>result_type\<close> here. A field that may be missing at run time is an
  option: \<open>importance\<close> (read as \<open>importance || 0\<close>, so that a missing one, and one that is
  not a number, stand for 0), \<open>geojson\<close> (tested before its \<open>type\<close> is read) and
  \<open>address?.postcode\<close>. The coordinates of a geometry are never inspected and are left
  out. Every step of the score is an operation on doubles, in the order of the code.
\<close>

datatype geometry = Geometry (geometry_type: jsstring)

datatype address = Address (address_postcode: "jsstring option")

record NominatimResult =
  place_id :: nat
  display_name :: jsstring
  result_class :: jsstring
  result_type :: jsstring
  importance :: "real option"
  geojson :: "geometry option"
  address :: "address option"

definition addressPostcode :: "NominatimResult \<Rightarrow> jsstring option" where
  \<comment> \<open>\<open>result.address?.postcode\<close>\<close>
  "addressPostcode result = (case address result of None \<Rightarrow> None | Some a \<Rightarrow> address_postcode a)"

definition importanceOrZero :: "NominatimResult \<Rightarrow> real" where
  \<comment> \<open>\<open>result.importance || 0\<close>\<close>
  "importanceOrZero result = (case importance result of None \<Rightarrow> 0 | Some i \<Rightarrow> i)"

definition scoreResult :: "(jsstring \<Rightarrow> jsstring) \<Rightarrow> NominatimResult \<Rightarrow> jsstring \<Rightarrow> real" where
  "scoreResult unicodeUpper result query =
     (let score = 0;
          displayName = toUpperCase unicodeUpper (display_name result);
          queryUpper = toUpperCase unicodeUpper query;
          score = (if result_class result = js ''boundary''
                      \<and> result_type result = js ''postal_code''
                   then jsAdd score 100 else score);
          score = (if startsWith displayName (queryUpper @ js '','')
                      \<or> startsWith displayName (queryUpper @ js '' '')
                   then jsAdd score 80 else score);
          score = (if (case addressPostcode result of None \<Rightarrow> False
                       | Some p \<Rightarrow> startsWith (toUpperCase unicodeUpper p) queryUpper)
                   then jsAdd score 50
                   else if includesStr displayName queryUpper then jsAdd score 20
                   else score);
          score = jsAdd score (jsMul (importanceOrZero result) 10);
          score = (if result_class result = js ''boundary''
                      \<and> result_type result
                          \<in> set [js ''administrative'', js ''county'', js ''city'',
                                  js ''suburb'', js ''borough'']
                   then jsSub score 60 else score)
      in score)"

definition MINIMUM_CONFIDENCE_SCORE :: real where
  "MINIMUM_CONFIDENCE_SCORE = 50"

section \<open>The search and the orchestrator\<close>

text \<open>
  The search collaborator is \<open>fetch\<close>. A call either rejects (the request could not be
  made or completed) or resolves to a response with its \<open>ok\<close> flag, its status and the
  outcome of \<open>response.json()\<close>: rejected (the body is not JSON), \<open>null\<close>, or an array of
  results. The collaborator is a parameter of the model, a function of the fragment that
  is searched for; the text of the URL and of the headers is not modelled. A function of
  the fragment covers every behaviour that one resolution can meet: the loop searches for
  each index of the hierarchy at most once, and the hierarchy has no duplicates. What the
  service writes to the console is left out.
\<close>

datatype json_result = JsonRejected jsstring | JsonNull | JsonArray "NominatimResult list"

datatype fetch_result =
  FetchRejected jsstring
| Response (ok: bool) (status: nat) (json: json_result)

text \<open>What a call of the service can throw: an \<open>Error\<close> of its own, or the rejection of
  \<open>fetch\<close> or of \<open>response.json()\<close>, which it does not catch.\<close>

datatype error = Error jsstring | FetchFailed jsstring | JsonFailed jsstring

definition hasShape :: "NominatimResult \<Rightarrow> bool" where
  "hasShape r = (case geojson r of None \<Rightarrow> False
                 | Some g \<Rightarrow> geometry_type g = js ''Polygon''
                            \<or> geometry_type g = js ''MultiPolygon'')"

text \<open>\<open>.sort((a, b) => b.score - a.score)\<close> is a stable sort by descending score: the
  difference of two finite doubles, rounded, has the sign of the exact difference.\<close>

definition sortByScore :: "(NominatimResult \<times> real) list \<Rightarrow> (NominatimResult \<times> real) list" where
  "sortByScore xs = sort_key (\<lambda>p. - snd p) xs"

definition searchNominatim ::
  "(jsstring \<Rightarrow> jsstring) \<Rightarrow> (jsstring \<Rightarrow> fetch_result) \<Rightarrow> jsstring
     \<Rightarrow> error + NominatimResult option" where
  "searchNominatim unicodeUpper fetch pc =
     (case fetch pc of
        FetchRejected m \<Rightarrow> Inl (FetchFailed m)
      | Response isOk st body \<Rightarrow>
          if \<not> isOk then Inr None
          else (case body of
                  JsonRejected m \<Rightarrow> Inl (JsonFailed m)
                | JsonNull \<Rightarrow> Inr None
                | JsonArray data \<Rightarrow>
                    if length data = 0 then Inr None
                    else let resultsWithShape = filter hasShape data in
                      if length resultsWithShape = 0 then Inr None
                      else (case sortByScore (map (\<lambda>r. (r, scoreResult unicodeUpper r pc))
                                              resultsWithShape) of
                              [] \<Rightarrow> Inr None
                            | bestMatch # _ \<Rightarrow>
                                if snd bestMatch \<ge> MINIMUM_CONFIDENCE_SCORE
                                then Inr (Some (fst bestMatch))
                                else Inr None)))"

text \<open>What the orchestrator does to the outside, in order: a search for a fragment, or a
  wait of so many milliseconds.\<close>

datatype event = Query jsstring | Delay nat

fun join :: "jsstring \<Rightarrow> jsstring list \<Rightarrow> jsstring" where
  "join sep [] = []"
| "join sep [x] = x"
| "join sep (x # y # ys) = x @ sep @ join sep (y # ys)"

definition notFoundMessage :: "jsstring list \<Rightarrow> jsstring" where
  "notFoundMessage postcodesToTry =
     js ''No geographical boundary data found for this postcode. We tried searching for ''
     @ js [CHR 0x22] @ join (js [CHR 0x22, CHR '','', CHR '' '', CHR 0x22]) postcodesToTry
     @ js [CHR 0x22] @ js '' but found no matching areas.''"

text \<open>The \<open>for\<close> loop of \<open>fetchPostcodeBoundary\<close> from index \<open>i\<close> on: the events it causes
  and how it ends.\<close>

function searchLoop ::
  "(jsstring \<Rightarrow> jsstring) \<Rightarrow> (jsstring \<Rightarrow> fetch_result) \<Rightarrow> jsstring list \<Rightarrow> nat
     \<Rightarrow> event list \<times> (error + NominatimResult)" where
  "searchLoop unicodeUpper fetch postcodesToTry i =
     (if i < length postcodesToTry then
        (case searchNominatim unicodeUpper fetch (postcodesToTry ! i) of
           Inl e \<Rightarrow> ([Query (postcodesToTry ! i)], Inl e)
         | Inr (Some r) \<Rightarrow> ([Query (postcodesToTry ! i)], Inr r)
         | Inr None \<Rightarrow>
             (Query (postcodesToTry ! i)
                # (if i < length postcodesToTry - 1 then [Delay 1000] else [])
                @ fst (searchLoop unicodeUpper fetch postcodesToTry (i + 1)),
              snd (searchLoop unicodeUpper fetch postcodesToTry (i + 1))))
      else ([], Inl (Error (notFoundMessage postcodesToTry))))"
  by pat_completeness auto
termination
  by (relation "measure (\<lambda>(unicodeUpper, fetch, postcodesToTry, i). length postcodesToTry - i)")
     auto

definition fetchPostcodeBoundary ::
  "(jsstring \<Rightarrow> jsstring) \<Rightarrow> (jsstring \<Rightarrow> fetch_result) \<Rightarrow> jsstring
     \<Rightarrow> event list \<times> (error + NominatimResult)" where
  "fetchPostcodeBoundary unicodeUpper fetch postcode =
     (if postcode = [] \<or> length (trim postcode) = 0
      then ([], Inl (Error (js ''Please enter a postcode.'')))
      else searchLoop unicodeUpper fetch (getPostcodesToTry unicodeUpper postcode) 0)"

definition queries :: "event list \<Rightarrow> jsstring list" where
  "queries evs = concat (map (\<lambda>e. case e of Query q \<Rightarrow> [q] | Delay n \<Rightarrow> []) evs)"

section \<open>Example candidates and search collaborators\<close>

text \<open>
  Concrete inputs for the worked examples below: an administrative boundary and a postal
  code boundary, a collaborator that knows the fragment \<open>EC1A\<close> only, and one that answers
  the search for \<open>SW1A\<close> with status 503. All their strings are ASCII, so that the case
  mapping of other strings is never consulted; where a closed example needs one, it is
  \<open>noUnicodeUpper\<close>.
\<close>

definition noUnicodeUpper :: "jsstring \<Rightarrow> jsstring" where
  "noUnicodeUpper s = s"

definition admin_candidate :: NominatimResult where
  "admin_candidate = \<lparr>place_id = 1, display_name = js ''sw1 Westminster, London'',
     result_class = js ''boundary'', result_type = js ''administrative'',
     importance = Some (1 / 2), geojson = Some (Geometry (js ''Polygon'')), address = None\<rparr>"

definition postal_candidate :: NominatimResult where
  "postal_candidate = \<lparr>place_id = 2, display_name = js ''EC1A, London, England'',
     result_class = js ''boundary'', result_type = js ''postal_code'',
     importance = Some (1 / 2), geojson = Some (Geometry (js ''MultiPolygon'')),
     address = Some (Address (Some (js ''ec1a 1bb'')))\<rparr>"

definition fetch_only_EC1A :: "jsstring \<Rightarrow> fetch_result" where
  "fetch_only_EC1A q =
     (if q = js ''EC1A'' then Response True 200 (JsonArray [admin_candidate, postal_candidate])
      else Response True 200 (JsonArray []))"

definition fetch_503_SW1A :: "jsstring \<Rightarrow> fetch_result" where
  "fetch_503_SW1A q = (if q = js ''SW1A'' then Response False 503 JsonNull
                       else Response True 200 (JsonArray []))"

declare shorten.simps [simp del]
declare searchLoop.simps [simp del]
declare shorten_rev13.simps [simp del]

section \<open>Properties of the hierarchy generator\<close>

text \<open>The definitions that the evaluation of a concrete string unfolds.\<close>

lemmas string_eval = js_def isUpper_def isDigit_def isWhitespace_def trim_def asciiUpper_def
  toUpperCase_def splitFirst_def endsWithUpper_def containsDigit_def endsWithDigit_def
  stripTrailingDigits_def newSet_def cleaned_def

lemmas hierarchy_eval = string_eval getPostcodesToTry_def shorten.simps

subsection \<open>Deduplication\<close>

lemma foldl_newSet_distinct:
  "distinct acc \<Longrightarrow> distinct (foldl (\<lambda>acc x. if x \<in> set acc then acc else acc @ [x]) acc xs)"
  by (induction xs arbitrary: acc) auto

lemma newSet_distinct: "distinct (newSet xs)"
  by (simp add: newSet_def foldl_newSet_distinct)

lemma foldl_newSet_sorted:
  "sorted_wrt R (acc @ xs) \<Longrightarrow>
   sorted_wrt R (foldl (\<lambda>acc x. if x \<in> set acc then acc else acc @ [x]) acc xs)"
proof (induction xs arbitrary: acc)
  case Nil
  then show ?case by simp
next
  case (Cons x xs)
  have "sorted_wrt R ((if x \<in> set acc then acc else acc @ [x]) @ xs)"
    using Cons.prems by (auto simp: sorted_wrt_append)
  then show ?case using Cons.IH by simp
qed

lemma newSet_sorted: "sorted_wrt R xs \<Longrightarrow> sorted_wrt R (newSet xs)"
  by (simp add: newSet_def foldl_newSet_sorted)

lemma foldl_newSet_hd:
  "acc \<noteq> [] \<Longrightarrow>
   foldl (\<lambda>acc x. if x \<in> set acc then acc else acc @ [x]) acc xs \<noteq> []
   \<and> hd (foldl (\<lambda>acc x. if x \<in> set acc then acc else acc @ [x]) acc xs) = hd acc"
  by (induction xs arbitrary: acc) auto

lemma newSet_Cons_hd: "newSet (x # xs) \<noteq> [] \<and> hd (newSet (x # xs)) = x"
  using foldl_newSet_hd [of "[x]" xs] by (simp add: newSet_def)

subsection \<open>The shortening loop\<close>

lemma shorten_sorted:
  "sorted_wrt (\<lambda>a b. length b \<le> length a) hierarchy \<Longrightarrow>
   \<forall>h \<in> set hierarchy. length current \<le> length h \<Longrightarrow>
   sorted_wrt (\<lambda>a b. length b \<le> length a) (shorten current hierarchy)"
proof (induction current hierarchy rule: shorten.induct)
  case (1 current hierarchy)
  have len: "length (stripTrailingDigits current) \<le> length current"
    by (simp add: stripTrailingDigits_def length_dropWhile_le [of isDigit "rev current", simplified])
  show ?case
  proof (cases "length current > 1")
    case False
    then show ?thesis using "1.prems" by (subst shorten.simps) simp
  next
    case long: True
    show ?thesis
    proof (cases "endsWithUpper current \<and> containsDigit current")
      case True
      have "sorted_wrt (\<lambda>a b. length b \<le> length a) (shorten (butlast current) (hierarchy @ [butlast current]))"
        using long True "1.prems" by (intro "1.IH"(1)) (auto simp: sorted_wrt_append)
      then show ?thesis using long True by (subst shorten.simps) simp
    next
      case notUpper: False
      show ?thesis
      proof (cases "endsWithDigit current \<and> length (stripTrailingDigits current) > 0 \<and> stripTrailingDigits current \<noteq> current")
        case True
        have "sorted_wrt (\<lambda>a b. length b \<le> length a)
                (shorten (stripTrailingDigits current) (hierarchy @ [stripTrailingDigits current]))"
          using long notUpper True "1.prems" len
          by (intro "1.IH"(2)) (auto simp: sorted_wrt_append)
        then show ?thesis using long notUpper True by (subst shorten.simps) auto
      next
        case False
        then have "shorten current hierarchy = hierarchy"
          using long notUpper by (subst shorten.simps) auto
        then show ?thesis using "1.prems" by simp
      qed
    qed
  qed
qed

lemma shorten_hd:
  "hierarchy \<noteq> [] \<Longrightarrow> shorten current hierarchy \<noteq> [] \<and> hd (shorten current hierarchy) = hd hierarchy"
proof (induction current hierarchy rule: shorten.induct)
  case (1 current hierarchy)
  show ?case
  proof (cases "length current > 1")
    case False
    then show ?thesis using "1.prems" by (subst (1 2) shorten.simps) simp
  next
    case long: True
    show ?thesis
    proof (cases "endsWithUpper current \<and> containsDigit current")
      case True
      then have "shorten current hierarchy = shorten (butlast current) (hierarchy @ [butlast current])"
        using long by (subst shorten.simps) simp
      then show ?thesis using long True "1.IH"(1) "1.prems" by simp
    next
      case notUpper: False
      show ?thesis
      proof (cases "endsWithDigit current \<and> length (stripTrailingDigits current) > 0 \<and> stripTrailingDigits current \<noteq> current")
        case True
        then have "shorten current hierarchy
            = shorten (stripTrailingDigits current) (hierarchy @ [stripTrailingDigits current])"
          using long notUpper by (subst shorten.simps) auto
        then show ?thesis using long notUpper True "1.IH"(2) "1.prems" by simp
      next
        case False
        then have "shorten current hierarchy = hierarchy"
          using long notUpper by (subst shorten.simps) auto
        then show ?thesis using "1.prems" by simp
      qed
    qed
  qed
qed

lemma includesStr_char: "includesStr s [c] \<longleftrightarrow> c \<in> set s"
  by (induction s) auto

lemma splitFirst_no_space: "\<not> includesStr s [SPACE] \<Longrightarrow> splitFirst s = s"
  by (auto simp: includesStr_char splitFirst_def takeWhile_eq_all_conv)

lemma splitFirst_length: "length (splitFirst s) \<le> length s"
  by (simp add: splitFirst_def length_takeWhile_le)

lemma collapseSpaces_spec: "collapseSpaces s = collapseRuns_spec (\<lambda>c. c = SPACE) s"
  by (induction s rule: collapseSpaces.induct) simp_all

lemma trim_decomposition:
  "\<exists>l r. s = l @ trim s @ r \<and> list_all isWhitespace l \<and> list_all isWhitespace r"
proof -
  let ?l = "takeWhile isWhitespace s"
  let ?m = "dropWhile isWhitespace s"
  let ?r = "rev (takeWhile isWhitespace (rev ?m))"
  have "rev ?m = takeWhile isWhitespace (rev ?m) @ dropWhile isWhitespace (rev ?m)" by simp
  then have "?m = rev (dropWhile isWhitespace (rev ?m)) @ ?r"
    by (metis rev_append rev_rev_ident)
  then have "s = ?l @ trim s @ ?r"
    by (metis takeWhile_dropWhile_id trim_def)
  moreover have "list_all isWhitespace ?l"
    by (simp add: list_all_iff) (meson set_takeWhileD)
  moreover have "list_all isWhitespace ?r"
    by (simp add: list_all_iff) (meson set_takeWhileD)
  ultimately show ?thesis by blast
qed

lemma trim_ends:
  assumes "trim s \<noteq> []"
  shows "\<not> isWhitespace (hd (trim s)) \<and> \<not> isWhitespace (last (trim s))"
proof -
  let ?m = "dropWhile isWhitespace s"
  let ?t = "dropWhile isWhitespace (rev ?m)"
  have t: "trim s = rev ?t" by (simp add: trim_def)
  then have ne: "?t \<noteq> []" using assms by simp
  then have l: "\<not> isWhitespace (hd ?t)" by (rule hd_dropWhile)
  have "rev ?m \<noteq> []" using ne by (metis dropWhile.simps(1))
  then have m: "?m \<noteq> []" by simp
  then have h: "\<not> isWhitespace (hd ?m)" by (rule hd_dropWhile)
  have "rev ?m = takeWhile isWhitespace (rev ?m) @ ?t" by simp
  then have "?m = rev ?t @ rev (takeWhile isWhitespace (rev ?m))"
    by (metis rev_append rev_rev_ident)
  then have "hd ?m = hd (rev ?t)" using ne by (metis hd_append2 rev_is_Nil_conv)
  then have "\<not> isWhitespace (hd (trim s))" using h t by simp
  moreover have "last (trim s) = hd ?t" using ne t by (simp add: last_rev)
  ultimately show ?thesis using l by simp
qed

subsection \<open>Worked examples\<close>

text \<open>
  Claim C3 says that the generator maps \<open>SE21\<close> to the three fragments \<open>SE21\<close>, \<open>SE2\<close>, \<open>SE\<close>.
  It does not: the digit branch removes the whole trailing run of digits at once
  (\<open>replace(/\d+$/, '')\<close>), so \<open>SE2\<close> is never produced.
\<close>

theorem C3_SE21_counterexample:
  "getPostcodesToTry noUnicodeUpper (js ''SE21'') \<noteq> [js ''SE21'', js ''SE2'', js ''SE'']"
  by (simp add: hierarchy_eval)

text \<open>
  Claim C3, amended: the generator maps \<open>SE21\<close> to exactly the two fragments \<open>SE21\<close>, \<open>SE\<close>.
\<close>

theorem C3_SE21_hierarchy:
  "getPostcodesToTry up (js ''SE21'') = [js ''SE21'', js ''SE'']"
  by (simp add: hierarchy_eval)

text \<open>
  Claim C4: the generator maps \<open>SW1A 0AA\<close> to \<open>SW1A 0AA\<close>, \<open>SW1A\<close>, \<open>SW1\<close>, \<open>SW\<close>, and \<open>M1\<close> to
  \<open>M1\<close>, \<open>M\<close>.
\<close>

theorem C4_hierarchy_examples:
  "getPostcodesToTry up (js ''SW1A 0AA'')
     = [js ''SW1A 0AA'', js ''SW1A'', js ''SW1'', js ''SW'']
   \<and> getPostcodesToTry up (js ''M1'') = [js ''M1'', js ''M'']"
  by (simp add: hierarchy_eval)

text \<open>
  The earlier revision, whose loop needs more than two characters, agrees on the full
  postcode and on \<open>SE21\<close>, and leaves \<open>M1\<close> alone.
\<close>

lemma getPostcodesToTry_rev13_examples:
  "getPostcodesToTry_rev13 up (js ''SW1A 0AA'')
     = [js ''SW1A 0AA'', js ''SW1A'', js ''SW1'', js ''SW'']
   \<and> getPostcodesToTry_rev13 up (js ''SE21'') = [js ''SE21'', js ''SE'']
   \<and> getPostcodesToTry_rev13 up (js ''M1'') = [js ''M1'']"
  by (simp add: string_eval getPostcodesToTry_rev13_def shorten_rev13.simps)

subsection \<open>Invariants\<close>

text \<open>
  Claim C6: for every input, the hierarchy has no duplicates, and no fragment is longer
  than a fragment before it (so each is at most as long as its predecessor).
\<close>

theorem C6_hierarchy_distinct_nonincreasing:
  "distinct (getPostcodesToTry up postcode)
   \<and> sorted_wrt (\<lambda>a b. length b \<le> length a) (getPostcodesToTry up postcode)"
proof
  show "distinct (getPostcodesToTry up postcode)"
    by (simp add: getPostcodesToTry_def Let_def newSet_distinct)
next
  let ?c = "cleaned up postcode"
  have a: "sorted_wrt (\<lambda>a b. length b \<le> length a) (shorten (splitFirst ?c) [?c, splitFirst ?c])"
    by (rule shorten_sorted) (simp_all add: splitFirst_length)
  have b: "sorted_wrt (\<lambda>a b. length b \<le> length a) (shorten (splitFirst ?c) [splitFirst ?c])"
    by (rule shorten_sorted) simp_all
  show "sorted_wrt (\<lambda>a b. length b \<le> length a) (getPostcodesToTry up postcode)"
    using a b by (simp add: getPostcodesToTry_def Let_def newSet_sorted)
qed

lemma getPostcodesToTry_hd:
  "getPostcodesToTry up postcode \<noteq> []
   \<and> hd (getPostcodesToTry up postcode) = cleaned up postcode"
proof -
  let ?c = "cleaned up postcode"
  let ?h0 = "(if includesStr ?c [SPACE] then [?c] else []) @ [splitFirst ?c]"
  have hd0: "hd ?h0 = ?c"
    by (simp add: splitFirst_no_space)
  have "shorten (splitFirst ?c) ?h0 \<noteq> [] \<and> hd (shorten (splitFirst ?c) ?h0) = hd ?h0"
    by (rule shorten_hd) simp
  then obtain h where h: "shorten (splitFirst ?c) ?h0 = ?c # h"
    using hd0 by (cases "shorten (splitFirst ?c) ?h0") auto
  have "getPostcodesToTry up postcode = newSet (shorten (splitFirst ?c) ?h0)"
    by (simp add: getPostcodesToTry_def Let_def)
  with h have "getPostcodesToTry up postcode = newSet (?c # h)"
    by simp
  then show ?thesis using newSet_Cons_hd [of ?c h] by simp
qed

text \<open>
  Claim C10 says that the first fragment is the input trimmed, uppercased and with its
  runs of internal white space collapsed to single spaces. The code collapses runs of the
  SPACE character only (\<open>/ +/g\<close>): for the input \<open>a\<close>, TAB, \<open>b\<close> the first fragment keeps
  the TAB, where the normal form of the specification has a SPACE.
\<close>

theorem C10_tab_counterexample:
  "hd (getPostcodesToTry noUnicodeUpper (js [CHR ''a'', CHR 0x09, CHR ''b'']))
     \<noteq> normalize_spec noUnicodeUpper (js [CHR ''a'', CHR 0x09, CHR ''b''])"
  by (simp add: hierarchy_eval normalize_spec_def)

text \<open>
  Claim C10, amended: for every input (empty, blank and malformed ones included) the
  generator returns, its loop being a total function, a list with at least one element.
  The first element is the input trimmed, uppercased and with every run of SPACE
  characters, and of no other white space, collapsed to one SPACE: it is what
  \<open>collapseRuns_spec\<close> makes of the trimmed and uppercased input for the class that holds
  SPACE alone. Trimmed means that the input is its trimmed form between two strings of
  white space, and that the trimmed form neither begins nor ends with white space.
\<close>

theorem C10_hierarchy_nonempty_first:
  "getPostcodesToTry up postcode \<noteq> []
   \<and> hd (getPostcodesToTry up postcode)
       = collapseRuns_spec (\<lambda>c. c = SPACE) (toUpperCase up (trim postcode))
   \<and> (\<exists>l r. postcode = l @ trim postcode @ r \<and> list_all isWhitespace l \<and> list_all isWhitespace r)
   \<and> (trim postcode = []
       \<or> \<not> isWhitespace (hd (trim postcode)) \<and> \<not> isWhitespace (last (trim postcode)))"
  using getPostcodesToTry_hd [of up postcode] trim_decomposition [of postcode]
    trim_ends [of postcode]
  by (auto simp: cleaned_def collapseSpaces_spec)

text \<open>
  Claim C10, amended, at an input that begins with U+FEFF and U+00A0, ends with U+3000
  and has a TAB and two SPACEs inside: the first fragment keeps the TAB and one SPACE.
\<close>

theorem C10_hierarchy_nonempty_first_witness:
  "hd (getPostcodesToTry noUnicodeUpper
         ([0xFEFF, 0xA0] @ js ''sw1a'' @ [0x09, SPACE, SPACE] @ js ''0aa'' @ [0x3000]))
     = js ''SW1A'' @ [0x09, SPACE] @ js ''0AA''
   \<and> trim ([0xFEFF, 0xA0] @ js ''sw1a'' @ [0x09, SPACE, SPACE] @ js ''0aa'' @ [0x3000])
     = js ''sw1a'' @ [0x09, SPACE, SPACE] @ js ''0aa''"
  using C10_hierarchy_nonempty_first [of noUnicodeUpper
      "[0xFEFF, 0xA0] @ js ''sw1a'' @ [0x09, SPACE, SPACE] @ js ''0aa'' @ [0x3000]"]
  by (simp add: string_eval)

section \<open>Properties of the rounding\<close>

text \<open>
  The rounding is odd (it commutes with the change of sign), monotone, and leaves a double
  as it is; whole numbers below \<open>2\<close> to the power 53 are doubles.
\<close>

lemma roundHalfEven_of_int [simp]: "roundHalfEven (of_int n) = n"
  by (simp add: roundHalfEven_def)

lemma roundHalfEven_bounds: "\<lfloor>r\<rfloor> \<le> roundHalfEven r \<and> roundHalfEven r \<le> \<lfloor>r\<rfloor> + 1"
  by (simp add: roundHalfEven_def)

lemma roundHalfEven_mono:
  assumes "r \<le> s"
  shows "roundHalfEven r \<le> roundHalfEven s"
proof (cases "\<lfloor>r\<rfloor> = \<lfloor>s\<rfloor>")
  case True
  then show ?thesis using assms by (auto simp: roundHalfEven_def)
next
  case False
  then have "\<lfloor>r\<rfloor> + 1 \<le> \<lfloor>s\<rfloor>" using assms floor_mono [of r s] by linarith
  then show ?thesis
    using roundHalfEven_bounds [of r] roundHalfEven_bounds [of s] by linarith
qed

lemma roundHalfEven_0 [simp]: "roundHalfEven 0 = 0"
  using roundHalfEven_of_int [of 0] by simp

lemma roundHalfEven_minus: "roundHalfEven (- r) = - roundHalfEven r"
proof (cases "r = of_int \<lfloor>r\<rfloor>")
  case True
  then obtain n where "r = of_int n" ..
  then show ?thesis by (simp flip: of_int_minus)
next
  case False
  then have less: "of_int \<lfloor>r\<rfloor> < r" using of_int_floor_le [of r] by linarith
  have up: "r < of_int \<lfloor>r\<rfloor> + 1" by linarith
  have fl: "\<lfloor>- r\<rfloor> = - \<lfloor>r\<rfloor> - 1"
  proof (rule floor_unique)
    show "of_int (- \<lfloor>r\<rfloor> - 1) \<le> - r"
      unfolding of_int_diff of_int_minus of_int_1 using up by linarith
    show "- r < of_int (- \<lfloor>r\<rfloor> - 1) + 1"
      unfolding of_int_diff of_int_minus of_int_1 using less by linarith
  qed
  consider "r - of_int \<lfloor>r\<rfloor> < 1 / 2" | "r - of_int \<lfloor>r\<rfloor> = 1 / 2" | "1 / 2 < r - of_int \<lfloor>r\<rfloor>"
    by linarith
  then show ?thesis
  proof cases
    case 1
    then show ?thesis unfolding roundHalfEven_def fl by simp
  next
    case 2
    then show ?thesis unfolding roundHalfEven_def fl by simp
  next
    case 3
    then show ?thesis unfolding roundHalfEven_def fl by simp
  qed
qed

lemma binade_minus [simp]: "binade (- x) = binade x"
  by (simp add: binade_def)

lemma ulp_minus [simp]: "ulp (- x) = ulp x"
  by (simp add: ulp_def)

lemma ulp_pos [simp]: "0 < ulp x"
  by (simp add: ulp_def)

lemma ulp_nonneg [simp]: "0 \<le> ulp x"
  by (simp add: ulp_def)

lemma binade_ge: "- 1022 \<le> binade x"
  by (simp add: binade_def)

lemma roundToDouble_minus: "roundToDouble (- x) = - roundToDouble x"
  by (simp add: roundToDouble_def roundHalfEven_minus)

lemma binade_eq:
  assumes "2 powr of_int k \<le> \<bar>x\<bar>" and "\<bar>x\<bar> < 2 powr (of_int k + 1)" and "- 1022 \<le> k"
  shows "binade x = k"
proof -
  have "0 < \<bar>x\<bar>" using assms(1) powr_gt_zero [of 2 "of_int k"] by linarith
  then have "\<lfloor>log 2 \<bar>x\<bar>\<rfloor> = k"
    using assms(1,2) by (simp add: floor_log_eq_powr_iff)
  then show ?thesis using assms(3) by (simp add: binade_def)
qed

lemma binade_upper:
  assumes "x \<noteq> 0"
  shows "\<bar>x\<bar> < 2 powr (of_int (binade x) + 1)"
proof -
  have pos: "0 < \<bar>x\<bar>" using assms by simp
  have "\<bar>x\<bar> < 2 powr (of_int \<lfloor>log 2 \<bar>x\<bar>\<rfloor> + 1)"
    using pos floor_log_eq_powr_iff [of "\<bar>x\<bar>" 2 "\<lfloor>log 2 \<bar>x\<bar>\<rfloor>"] by simp
  also have "\<dots> \<le> 2 powr (of_int (binade x) + 1)"
    by (rule powr_mono) (simp_all add: binade_def)
  finally show ?thesis .
qed

lemma binade_lower:
  assumes "x \<noteq> 0" and "- 1022 < binade x"
  shows "2 powr of_int (binade x) \<le> \<bar>x\<bar>"
proof -
  have pos: "0 < \<bar>x\<bar>" using assms by simp
  have "binade x = \<lfloor>log 2 \<bar>x\<bar>\<rfloor>" using assms(2) by (simp add: binade_def max_def split: if_splits)
  then show ?thesis
    using pos floor_log_eq_powr_iff [of "\<bar>x\<bar>" 2 "\<lfloor>log 2 \<bar>x\<bar>\<rfloor>"] by simp
qed

lemma binade_mono:
  assumes "0 < x" and "x \<le> y"
  shows "binade x \<le> binade y"
proof -
  have "log 2 \<bar>x\<bar> \<le> log 2 \<bar>y\<bar>" using assms by simp
  then have "\<lfloor>log 2 \<bar>x\<bar>\<rfloor> \<le> \<lfloor>log 2 \<bar>y\<bar>\<rfloor>" by (rule floor_mono)
  then show ?thesis by (simp add: binade_def)
qed

lemma ulp_scale: "ulp x * 2 ^ 53 = 2 powr (of_int (binade x) + 1)"
proof -
  have "(2::real) ^ 53 = 2 powr 53" by simp
  then have "ulp x * 2 ^ 53 = 2 powr (of_int (binade x) - 52) * 2 powr 53"
    by (simp only: ulp_def)
  also have "\<dots> = 2 powr (of_int (binade x) - 52 + 53)" by (simp only: powr_add)
  finally show ?thesis by (simp add: algebra_simps)
qed

lemma ulp_scale': "ulp x * 2 ^ 52 = 2 powr of_int (binade x)"
proof -
  have "(2::real) ^ 52 = 2 powr 52" by simp
  then have "ulp x * 2 ^ 52 = 2 powr (of_int (binade x) - 52) * 2 powr 52"
    by (simp only: ulp_def)
  also have "\<dots> = 2 powr (of_int (binade x) - 52 + 52)" by (simp only: powr_add)
  finally show ?thesis by simp
qed

lemma roundToDouble_pos_upper:
  assumes "0 < x"
  shows "roundToDouble x \<le> 2 powr (of_int (binade x) + 1)"
proof -
  have "\<bar>x\<bar> < 2 powr (of_int (binade x) + 1)" using binade_upper [of x] assms by simp
  then have "x < ulp x * 2 ^ 53" using assms by (simp only: ulp_scale abs_of_pos)
  then have "x / ulp x < 2 ^ 53" by (simp only: pos_divide_less_eq [OF ulp_pos] mult.commute)
  then have "x / ulp x \<le> of_int (2 ^ 53)" by simp
  then have "roundHalfEven (x / ulp x) \<le> 2 ^ 53"
    using roundHalfEven_mono roundHalfEven_of_int by metis
  then have "of_int (roundHalfEven (x / ulp x)) * ulp x \<le> of_int (2 ^ 53) * ulp x"
    by (intro mult_right_mono) (simp_all add: less_imp_le)
  then show ?thesis using assms by (simp add: roundToDouble_def ulp_scale [symmetric] mult.commute)
qed

lemma roundToDouble_pos_lower:
  assumes "0 < x" and "- 1022 < binade x"
  shows "2 powr of_int (binade x) \<le> roundToDouble x"
proof -
  have "2 powr of_int (binade x) \<le> \<bar>x\<bar>" using binade_lower [of x] assms by simp
  then have "ulp x * 2 ^ 52 \<le> x" using assms by (simp only: ulp_scale' abs_of_pos)
  then have "2 ^ 52 \<le> x / ulp x" by (simp only: pos_le_divide_eq [OF ulp_pos] mult.commute)
  then have "of_int (2 ^ 52) \<le> x / ulp x" by simp
  then have "2 ^ 52 \<le> roundHalfEven (x / ulp x)"
    using roundHalfEven_mono roundHalfEven_of_int by metis
  then have "of_int (2 ^ 52) * ulp x \<le> of_int (roundHalfEven (x / ulp x)) * ulp x"
    by (intro mult_right_mono) (simp_all add: less_imp_le)
  then show ?thesis using assms by (simp add: roundToDouble_def ulp_scale' [symmetric] mult.commute)
qed

lemma roundToDouble_nonneg:
  assumes "0 \<le> x"
  shows "0 \<le> roundToDouble x"
proof (cases "x = 0")
  case True
  then show ?thesis by (simp add: roundToDouble_def)
next
  case False
  then have "0 \<le> x / ulp x" using assms by simp
  then have "roundHalfEven (of_int 0) \<le> roundHalfEven (x / ulp x)"
    by (intro roundHalfEven_mono) simp
  then show ?thesis using False by (simp add: roundToDouble_def zero_le_mult_iff)
qed

lemma roundToDouble_mono_pos:
  assumes "0 < x" and "x \<le> y"
  shows "roundToDouble x \<le> roundToDouble y"
proof (cases "binade x = binade y")
  case True
  then have u: "ulp x = ulp y" by (simp add: ulp_def)
  have "x / ulp y \<le> y / ulp y" using assms(2) by (simp add: divide_right_mono less_imp_le)
  then have "roundHalfEven (x / ulp y) \<le> roundHalfEven (y / ulp y)" by (rule roundHalfEven_mono)
  then have "of_int (roundHalfEven (x / ulp y)) * ulp y \<le> of_int (roundHalfEven (y / ulp y)) * ulp y"
    by (intro mult_right_mono) (simp_all add: less_imp_le)
  then show ?thesis using assms u by (simp add: roundToDouble_def)
next
  case False
  then have lt: "binade x + 1 \<le> binade y" using binade_mono [OF assms] by simp
  then have "- 1022 < binade y" using binade_ge [of x] by linarith
  then have "2 powr of_int (binade y) \<le> roundToDouble y"
    using assms by (intro roundToDouble_pos_lower) simp_all
  moreover have "roundToDouble x \<le> 2 powr (of_int (binade x) + 1)"
    using assms(1) by (rule roundToDouble_pos_upper)
  moreover have "real_of_int (binade x) + 1 \<le> real_of_int (binade y)"
    using lt by linarith
  then have "(2::real) powr (of_int (binade x) + 1) \<le> 2 powr of_int (binade y)"
    by (intro powr_mono) simp_all
  ultimately show ?thesis by linarith
qed

lemma roundToDouble_mono:
  assumes "x \<le> y"
  shows "roundToDouble x \<le> roundToDouble y"
proof -
  consider "0 < x" | "x \<le> 0" "0 \<le> y" | "y < 0" by linarith
  then show ?thesis
  proof cases
    case 1
    then show ?thesis using assms by (rule roundToDouble_mono_pos)
  next
    case 2
    have "0 \<le> roundToDouble (- x)" using 2(1) by (intro roundToDouble_nonneg) simp
    then have "roundToDouble x \<le> 0" by (simp add: roundToDouble_minus)
    moreover have "0 \<le> roundToDouble y" using 2(2) by (rule roundToDouble_nonneg)
    ultimately show ?thesis by simp
  next
    case 3
    then have "roundToDouble (- y) \<le> roundToDouble (- x)"
      using assms by (intro roundToDouble_mono_pos) simp_all
    then show ?thesis by (simp add: roundToDouble_minus)
  qed
qed

lemma roundToDouble_exact:
  assumes "x / ulp x = of_int n"
  shows "roundToDouble x = x"
proof (cases "x = 0")
  case True
  then show ?thesis by (simp add: roundToDouble_def)
next
  case False
  have "of_int n * ulp x = x / ulp x * ulp x" by (simp only: assms)
  also have "\<dots> = x"
  proof -
    have "ulp x \<noteq> 0" using ulp_pos [of x] by linarith
    then show ?thesis by simp
  qed
  finally show ?thesis using False assms by (simp add: roundToDouble_def)
qed

lemma roundToDouble_binade:
  assumes "2 powr of_int k \<le> \<bar>x\<bar>" and "\<bar>x\<bar> < 2 powr (of_int k + 1)" and "- 1022 \<le> k"
    and "x / 2 powr (of_int k - 52) = of_int n"
  shows "roundToDouble x = x"
proof -
  have "binade x = k" using assms(1,2,3) by (rule binade_eq)
  then have "x / ulp x = of_int n" using assms(4) by (simp add: ulp_def)
  then show ?thesis by (rule roundToDouble_exact)
qed

lemma roundToDouble_of_int:
  assumes "\<bar>n\<bar> < 2 ^ 53"
  shows "roundToDouble (of_int n) = of_int n"
proof (cases "n = 0")
  case True
  then show ?thesis by (simp add: roundToDouble_def)
next
  case False
  let ?x = "of_int n :: real"
  let ?b = "binade ?x"
  have ne: "?x \<noteq> 0" using False by simp
  have "1 \<le> \<bar>n\<bar>" using False by simp
  then have ge1: "1 \<le> \<bar>?x\<bar>" by (metis of_int_1_le_iff of_int_abs)
  then have "0 \<le> log 2 \<bar>?x\<bar>" by simp
  then have b0: "0 \<le> ?b" by (simp add: binade_def)
  have "\<bar>?x\<bar> < 2 ^ 53" using assms by (metis of_int_abs of_int_less_iff of_int_numeral of_int_power)
  then have "\<bar>?x\<bar> < 2 powr 53" by simp
  moreover have "2 powr of_int ?b \<le> \<bar>?x\<bar>" using ne b0 by (intro binade_lower) simp_all
  ultimately have "(2::real) powr of_int ?b < 2 powr 53" by linarith
  then have "of_int ?b < (53::real)" by (rule powr_less_cancel) simp
  then have b52: "?b \<le> 52" by linarith
  have "?x / ulp ?x = ?x * 2 powr (52 - of_int ?b)"
    by (simp add: ulp_def powr_diff field_simps)
  also have "(2::real) powr (52 - of_int ?b) = 2 ^ nat (52 - ?b)"
    using b52 by (simp add: powr_realpow [symmetric])
  finally have "?x / ulp ?x = of_int (n * 2 ^ nat (52 - ?b))" by simp
  then show ?thesis by (rule roundToDouble_exact)
qed

lemma roundToDouble_value:
  assumes "2 powr of_int k \<le> \<bar>x\<bar>" and "\<bar>x\<bar> < 2 powr (of_int k + 1)" and "- 1022 \<le> k"
    and "roundHalfEven (x / 2 powr (of_int k - 52)) = m"
  shows "roundToDouble x = of_int m * 2 powr (of_int k - 52)"
proof -
  have "binade x = k" using assms(1,2,3) by (rule binade_eq)
  moreover have "x \<noteq> 0" using assms(1) powr_gt_zero [of 2 "of_int k"] by auto
  ultimately show ?thesis using assms(4) by (simp add: roundToDouble_def ulp_def)
qed

lemma roundToDouble_below_10: "roundToDouble (10 - 5 / 2 ^ 49) = 10 - 5 / 2 ^ 49"
  by (rule roundToDouble_binade [where k = 3 and n = "10 * 2 ^ 49 - 5"])
     (simp_all add: powr_neg_numeral)

lemma roundToDouble_below_110: "roundToDouble (110 - 5 / 2 ^ 49) = 110 - 1 / 2 ^ 46"
proof -
  have "roundToDouble (110 - 5 / 2 ^ 49) = of_int (110 * 2 ^ 46 - 1) * 2 powr (of_int 6 - 52)"
    by (rule roundToDouble_value) (simp_all add: powr_neg_numeral roundHalfEven_def)
  then show ?thesis by (simp add: powr_neg_numeral)
qed

lemma roundToDouble_below_50: "roundToDouble (50 - 1 / 2 ^ 46) = 50 - 1 / 2 ^ 46"
  by (rule roundToDouble_binade [where k = 5 and n = "50 * 2 ^ 47 - 2"])
     (simp_all add: powr_neg_numeral)

lemma below_threshold:
  assumes "imp \<le> 1 - 1 / 2 ^ 50"
  shows "roundToDouble (roundToDouble (100 + roundToDouble (imp * 10)) - 60) < 50"
proof -
  have "imp * 10 \<le> 10 - 5 / 2 ^ 49" using assms by simp
  then have a: "roundToDouble (imp * 10) \<le> 10 - 5 / 2 ^ 49"
    using roundToDouble_mono roundToDouble_below_10 by metis
  then have "100 + roundToDouble (imp * 10) \<le> 110 - 5 / 2 ^ 49" by simp
  then have b: "roundToDouble (100 + roundToDouble (imp * 10)) \<le> 110 - 1 / 2 ^ 46"
    using roundToDouble_mono roundToDouble_below_110 by metis
  then have "roundToDouble (100 + roundToDouble (imp * 10)) - 60 \<le> 50 - 1 / 2 ^ 46" by simp
  then have "roundToDouble (roundToDouble (100 + roundToDouble (imp * 10)) - 60) \<le> 50 - 1 / 2 ^ 46"
    using roundToDouble_mono roundToDouble_below_50 by metis
  moreover have "(50::real) - 1 / 2 ^ 46 < 50" by simp
  ultimately show ?thesis by linarith
qed

lemma roundToDouble_product_seventh: "roundToDouble ((1 - 7 / 2 ^ 53) * 10) = 10 - 4 / 2 ^ 49"
proof -
  have "roundToDouble ((1 - 7 / 2 ^ 53) * 10) = of_int (10 * 2 ^ 49 - 4) * 2 powr (of_int 3 - 52)"
    by (rule roundToDouble_value) (simp_all add: powr_neg_numeral roundHalfEven_def)
  then show ?thesis by (simp add: powr_neg_numeral)
qed

lemma roundToDouble_sum_seventh: "roundToDouble (100 + (10 - 4 / 2 ^ 49)) = 110"
proof -
  have "roundToDouble (100 + (10 - 4 / 2 ^ 49)) = of_int (110 * 2 ^ 46) * 2 powr (of_int 6 - 52)"
    by (rule roundToDouble_value) (simp_all add: powr_neg_numeral roundHalfEven_def)
  then show ?thesis by (simp add: powr_neg_numeral)
qed

lemma roundToDouble_numeral [simp]:
  "numeral n < (2::int) ^ 53 \<Longrightarrow> roundToDouble (numeral n) = numeral n"
  using roundToDouble_of_int [of "numeral n"] by simp

lemma roundToDouble_neg_numeral [simp]:
  "numeral n < (2::int) ^ 53 \<Longrightarrow> roundToDouble (- numeral n) = - numeral n"
  using roundToDouble_of_int [of "- numeral n"] by simp

lemma roundToDouble_0 [simp]: "roundToDouble 0 = 0"
  by (simp add: roundToDouble_def)

section \<open>Properties of the candidate scorer\<close>

lemma startsWith_append: "startsWith s (p @ q) \<Longrightarrow> startsWith s p"
  by (induction s p rule: startsWith.induct) auto

lemma startsWith_includesStr: "startsWith s p \<Longrightarrow> includesStr s p"
  by (cases s) (auto elim: startsWith.elims)

text \<open>
  The bonuses are small whole numbers, which the additions give exactly; the rounding
  matters from the importance term on.
\<close>

lemma scoreResult_expand:
  "scoreResult up r query =
     (let bonus =
            (if result_class r = js ''boundary'' \<and> result_type r = js ''postal_code''
             then 100 else 0)
          + (if startsWith (toUpperCase up (display_name r))
                  (toUpperCase up query @ js '','')
                \<or> startsWith (toUpperCase up (display_name r))
                     (toUpperCase up query @ js '' '')
             then 80 else 0)
          + (if (case addressPostcode r of None \<Rightarrow> False
                 | Some p \<Rightarrow> startsWith (toUpperCase up p)
                              (toUpperCase up query))
             then 50
             else if includesStr (toUpperCase up (display_name r))
                       (toUpperCase up query)
             then 20 else 0);
          score = jsAdd bonus (jsMul (importanceOrZero r) 10)
      in if result_class r = js ''boundary''
            \<and> result_type r \<in> set [js ''administrative'', js ''county'', js ''city'',
                                    js ''suburb'', js ''borough'']
         then jsSub score 60 else score)"
proof -
  have steps: "
    (if pen
     then jsSub (jsAdd (if m then jsAdd (if p then jsAdd (if g then jsAdd 0 100 else 0) 80
                                              else (if g then jsAdd 0 100 else 0)) 50
                        else if i then jsAdd (if p then jsAdd (if g then jsAdd 0 100 else 0) 80
                                              else (if g then jsAdd 0 100 else 0)) 20
                        else (if p then jsAdd (if g then jsAdd 0 100 else 0) 80
                              else (if g then jsAdd 0 100 else 0))) t) 60
     else jsAdd (if m then jsAdd (if p then jsAdd (if g then jsAdd 0 100 else 0) 80
                                  else (if g then jsAdd 0 100 else 0)) 50
                 else if i then jsAdd (if p then jsAdd (if g then jsAdd 0 100 else 0) 80
                                       else (if g then jsAdd 0 100 else 0)) 20
                 else (if p then jsAdd (if g then jsAdd 0 100 else 0) 80
                       else (if g then jsAdd 0 100 else 0))) t)
    = (if pen
       then jsSub (jsAdd ((if g then 100 else 0) + (if p then 80 else 0)
                          + (if m then 50 else if i then 20 else 0)) t) 60
       else jsAdd ((if g then 100 else 0) + (if p then 80 else 0)
                   + (if m then 50 else if i then 20 else 0)) t)"
    for g p m i pen :: bool and t :: real
    by (cases g; cases p; cases m; cases i; cases pen) (simp_all add: jsAdd_def)
  show ?thesis
    unfolding scoreResult_def Let_def by (rule steps)
qed

lemmas candidate_eval = admin_candidate_def postal_candidate_def addressPostcode_def
  importanceOrZero_def

text \<open>
  Claim C5: a candidate of class \<open>boundary\<close> and type \<open>postal_code\<close> whose importance is not
  negative (a missing importance counts as 0) scores at least 100 for every query and
  whatever its other fields are, and so reaches the confidence threshold of 50.
\<close>

theorem C5_postal_code_score:
  assumes "result_class r = js ''boundary''" and "result_type r = js ''postal_code''"
    and "0 \<le> importanceOrZero r"
  shows "scoreResult up r query \<ge> 100
     \<and> scoreResult up r query \<ge> MINIMUM_CONFIDENCE_SCORE"
proof -
  define bonus :: real where "bonus =
      100
      + (if startsWith (toUpperCase up (display_name r))
              (toUpperCase up query @ js '','')
            \<or> startsWith (toUpperCase up (display_name r))
                 (toUpperCase up query @ js '' '')
         then 80 else 0)
      + (if (case addressPostcode r of None \<Rightarrow> False
             | Some p \<Rightarrow> startsWith (toUpperCase up p)
                          (toUpperCase up query))
         then 50
         else if includesStr (toUpperCase up (display_name r))
                   (toUpperCase up query)
         then 20 else 0)"
  have penalty: "result_type r \<notin> set [js ''administrative'', js ''county'', js ''city'',
      js ''suburb'', js ''borough'']"
    using assms(2) by (simp add: js_def)
  have score: "scoreResult up r query = jsAdd bonus (jsMul (importanceOrZero r) 10)"
    using assms(1,2) penalty
    by (simp only: scoreResult_expand [of up r query] bonus_def Let_def if_True if_False
        simp_thms)
  have "100 \<le> bonus" by (simp add: bonus_def)
  moreover have "0 \<le> jsMul (importanceOrZero r) 10"
    using assms(3) by (simp add: jsMul_def roundToDouble_nonneg)
  ultimately have "100 \<le> bonus + jsMul (importanceOrZero r) 10" by linarith
  then have "roundToDouble 100 \<le> jsAdd bonus (jsMul (importanceOrZero r) 10)"
    unfolding jsAdd_def by (rule roundToDouble_mono)
  then have "100 \<le> scoreResult up r query" using score by simp
  then show ?thesis by (simp add: MINIMUM_CONFIDENCE_SCORE_def)
qed

text \<open>
  Claim C5 at a postal code boundary of importance 0.5, scored for the query \<open>SW\<close>, which
  its label does not even contain.
\<close>

theorem C5_postal_code_score_witness:
  "result_class postal_candidate = js ''boundary''
   \<and> result_type postal_candidate = js ''postal_code''
   \<and> 0 \<le> importanceOrZero postal_candidate
   \<and> scoreResult noUnicodeUpper postal_candidate (js ''SW'') \<ge> 100
   \<and> scoreResult noUnicodeUpper postal_candidate (js ''SW'') \<ge> MINIMUM_CONFIDENCE_SCORE"
proof -
  have a: "result_class postal_candidate = js ''boundary''"
    and b: "result_type postal_candidate = js ''postal_code''"
    and c: "0 \<le> importanceOrZero postal_candidate"
    by (simp_all add: candidate_eval)
  from C5_postal_code_score [OF a b c] a b c show ?thesis by simp
qed

text \<open>
  Claim C1 says that an administrative boundary whose label starts with the query and a
  comma or space, and whose structured postcode is absent, scores 80 - 60 plus ten times
  its importance, which is below the threshold of 50 for every importance below 3. In the
  code the test for the query inside the label is the \<open>else\<close> of the test of the structured
  postcode, so such a candidate also receives the 20 of the substring test. For the label
  \<open>SW1, London, England\<close>, the query \<open>SW1\<close> and importance 1 the score is 50: it is not
  80 - 60 + 10, and it is not below the threshold.
\<close>

theorem C1_admin_prefix_counterexample:
  "scoreResult noUnicodeUpper
     \<lparr>place_id = 1, display_name = js ''SW1, London, England'',
        result_class = js ''boundary'', result_type = js ''administrative'',
        importance = Some 1, geojson = Some (Geometry (js ''Polygon'')), address = None\<rparr>
     (js ''SW1'') = 50
   \<and> scoreResult noUnicodeUpper
     \<lparr>place_id = 1, display_name = js ''SW1, London, England'',
        result_class = js ''boundary'', result_type = js ''administrative'',
        importance = Some 1, geojson = Some (Geometry (js ''Polygon'')), address = None\<rparr>
     (js ''SW1'') \<noteq> jsAdd (jsSub 80 60) (jsMul 1 10)
   \<and> \<not> scoreResult noUnicodeUpper
     \<lparr>place_id = 1, display_name = js ''SW1, London, England'',
        result_class = js ''boundary'', result_type = js ''administrative'',
        importance = Some 1, geojson = Some (Geometry (js ''Polygon'')), address = None\<rparr>
     (js ''SW1'') < MINIMUM_CONFIDENCE_SCORE"
  by (simp add: scoreResult_expand string_eval candidate_eval jsAdd_def jsSub_def jsMul_def
      MINIMUM_CONFIDENCE_SCORE_def)

lemma below_threshold_score:
  assumes "imp \<le> 1 - 1 / 2 ^ 50"
  shows "jsSub (jsAdd (80 + 20) (jsMul imp 10)) 60 < 50"
  using below_threshold [OF assms] by (simp add: jsAdd_def jsSub_def jsMul_def)

lemma scoreResult_admin_prefix:
  assumes "result_class r = js ''boundary''" and "result_type r = js ''administrative''"
    and "startsWith (toUpperCase up (display_name r))
           (toUpperCase up query @ js '','')
         \<or> startsWith (toUpperCase up (display_name r))
              (toUpperCase up query @ js '' '')"
    and "addressPostcode r = None"
  shows "scoreResult up r query
           = jsSub (jsAdd (80 + 20) (jsMul (importanceOrZero r) 10)) 60"
proof -
  have "startsWith (toUpperCase up (display_name r)) (toUpperCase up query)"
    using assms(3) by (auto dest: startsWith_append)
  then have incl: "includesStr (toUpperCase up (display_name r))
      (toUpperCase up query)"
    by (rule startsWith_includesStr)
  have gold: "result_type r \<noteq> js ''postal_code''" using assms(2) by (simp add: js_def)
  show ?thesis using assms incl gold by (simp add: scoreResult_expand)
qed

text \<open>
  Claim C1, amended: an administrative boundary whose uppercased label starts with the
  uppercased query followed by a comma or a space, and whose structured postcode is
  absent, scores what the code computes in double arithmetic as 80 + 20, plus ten times
  the importance (a missing importance counting as 0), minus 60. This score is strictly
  below the threshold of 50 whenever the importance is at most \<open>1 - 2\<close> to the power -50,
  that is for every double below 1 but the seven nearest to 1.
\<close>

theorem C1_admin_prefix_score:
  assumes "result_class r = js ''boundary''" and "result_type r = js ''administrative''"
    and "startsWith (toUpperCase up (display_name r))
           (toUpperCase up query @ js '','')
         \<or> startsWith (toUpperCase up (display_name r))
              (toUpperCase up query @ js '' '')"
    and "addressPostcode r = None"
  shows "scoreResult up r query
           = jsSub (jsAdd (80 + 20) (jsMul (importanceOrZero r) 10)) 60
     \<and> (importanceOrZero r \<le> 1 - 1 / 2 ^ 50
          \<longrightarrow> scoreResult up r query < MINIMUM_CONFIDENCE_SCORE)"
  using scoreResult_admin_prefix [OF assms] below_threshold_score [of "importanceOrZero r"]
  by (simp add: MINIMUM_CONFIDENCE_SCORE_def)

text \<open>
  Claim C1, amended, at an administrative boundary of importance 0.5 whose label starts with
  the query and a space, in another letter case: the score is 45.
\<close>

theorem C1_admin_prefix_score_witness:
  "result_class admin_candidate = js ''boundary''
   \<and> result_type admin_candidate = js ''administrative''
   \<and> startsWith (toUpperCase noUnicodeUpper (display_name admin_candidate))
        (toUpperCase noUnicodeUpper (js ''sw1'') @ js '' '')
   \<and> addressPostcode admin_candidate = None
   \<and> importanceOrZero admin_candidate \<le> 1 - 1 / 2 ^ 50
   \<and> scoreResult noUnicodeUpper admin_candidate (js ''sw1'') = 45
   \<and> scoreResult noUnicodeUpper admin_candidate (js ''sw1'') < MINIMUM_CONFIDENCE_SCORE"
proof -
  have h1: "result_class admin_candidate = js ''boundary''"
    and h2: "result_type admin_candidate = js ''administrative''"
    and h3: "startsWith (toUpperCase noUnicodeUpper (display_name admin_candidate))
        (toUpperCase noUnicodeUpper (js ''sw1'') @ js '' '')"
    and h4: "addressPostcode admin_candidate = None"
    and h5: "importanceOrZero admin_candidate \<le> 1 - 1 / 2 ^ 50"
    and imp: "importanceOrZero admin_candidate = 1 / 2"
    by (simp_all add: candidate_eval string_eval)
  from C1_admin_prefix_score [OF h1 h2 disjI2 [OF h3] h4] imp h1 h2 h3 h4 h5 show ?thesis
    by (simp add: jsAdd_def jsSub_def jsMul_def)
qed

text \<open>
  The bound on the importance is the largest one: for the seventh double below 1 the
  sum \<open>100 + 9.999999999999998\<close> is rounded to 110, and the score is 50.
\<close>

lemma scoreResult_seventh_double_below_one:
  "scoreResult noUnicodeUpper
     \<lparr>place_id = 1, display_name = js ''SW1, London, England'',
        result_class = js ''boundary'', result_type = js ''administrative'',
        importance = Some (1 - 7 / 2 ^ 53), geojson = Some (Geometry (js ''Polygon'')),
        address = None\<rparr>
     (js ''SW1'') = 50"
proof -
  let ?r = "\<lparr>place_id = 1, display_name = js ''SW1, London, England'',
        result_class = js ''boundary'', result_type = js ''administrative'',
        importance = Some (1 - 7 / 2 ^ 53), geojson = Some (Geometry (js ''Polygon'')),
        address = None\<rparr>"
  have "scoreResult noUnicodeUpper ?r (js ''SW1'')
      = jsSub (jsAdd (80 + 20) (jsMul (importanceOrZero ?r) 10)) 60"
    by (rule scoreResult_admin_prefix) (simp_all add: string_eval candidate_eval)
  moreover have "importanceOrZero ?r = 1 - 7 / 2 ^ 53" by (simp add: importanceOrZero_def)
  moreover have "jsMul (1 - 7 / 2 ^ 53) 10 = 10 - 4 / 2 ^ 49"
    unfolding jsMul_def by (rule roundToDouble_product_seventh)
  moreover have "jsAdd (80 + 20) (10 - 4 / 2 ^ 49) = 110"
  proof -
    have "(80::real) + 20 + (10 - 4 / 2 ^ 49) = 100 + (10 - 4 / 2 ^ 49)" by simp
    then show ?thesis unfolding jsAdd_def by (simp only: roundToDouble_sum_seventh)
  qed
  moreover have "jsSub 110 60 = 50" by (simp add: jsSub_def)
  ultimately show ?thesis by (simp only:)
qed

text \<open>
  Claim C2 says that a candidate that receives the 80 of the label prefix test does not
  receive the bonus of the substring test as well. A candidate that is no boundary, has no
  importance and no structured postcode, and whose label starts with the query and a comma,
  scores 100: the 80 and the 20.
\<close>

theorem C2_prefix_and_substring_counterexample:
  "scoreResult noUnicodeUpper
     \<lparr>place_id = 2, display_name = js ''SW1, London, England'', result_class = js ''place'',
        result_type = js ''postcode'', importance = None,
        geojson = Some (Geometry (js ''Polygon'')), address = None\<rparr>
     (js ''SW1'') = 80 + 20"
  by (simp add: scoreResult_expand string_eval candidate_eval jsAdd_def jsMul_def)

text \<open>
  Claim C2, amended: the substring bonus of 20 and the structured postcode bonus of 50 are
  the two that exclude each other, for every candidate and query. The score is the sum of
  the 100 of a postal code boundary, the 80 of the label prefix test, and one of the two:
  the 50 when the structured postcode, uppercased, starts with the uppercased query, and
  only otherwise the 20 when the uppercased label contains the uppercased query; then ten
  times the importance is added and the penalty of 60 subtracted, in double arithmetic.
  A label that starts with the query followed by a comma or a space contains the query,
  so such a candidate receives the 80 and, on top of it, the 50 or the 20.
\<close>

theorem C2_prefix_match_score:
  "scoreResult up r query =
     (let bonus =
            (if result_class r = js ''boundary'' \<and> result_type r = js ''postal_code''
             then 100 else 0)
          + (if startsWith (toUpperCase up (display_name r))
                  (toUpperCase up query @ js '','')
                \<or> startsWith (toUpperCase up (display_name r))
                     (toUpperCase up query @ js '' '')
             then 80 else 0)
          + (if (case addressPostcode r of None \<Rightarrow> False
                 | Some p \<Rightarrow> startsWith (toUpperCase up p)
                              (toUpperCase up query))
             then 50
             else if includesStr (toUpperCase up (display_name r))
                       (toUpperCase up query)
             then 20 else 0);
          score = jsAdd bonus (jsMul (importanceOrZero r) 10)
      in if result_class r = js ''boundary''
            \<and> result_type r \<in> set [js ''administrative'', js ''county'', js ''city'',
                                    js ''suburb'', js ''borough'']
         then jsSub score 60 else score)
   \<and> (startsWith (toUpperCase up (display_name r))
          (toUpperCase up query @ js '','')
        \<or> startsWith (toUpperCase up (display_name r))
             (toUpperCase up query @ js '' '')
       \<longrightarrow> includesStr (toUpperCase up (display_name r))
             (toUpperCase up query))"
proof
  show "scoreResult up r query =
     (let bonus =
            (if result_class r = js ''boundary'' \<and> result_type r = js ''postal_code''
             then 100 else 0)
          + (if startsWith (toUpperCase up (display_name r))
                  (toUpperCase up query @ js '','')
                \<or> startsWith (toUpperCase up (display_name r))
                     (toUpperCase up query @ js '' '')
             then 80 else 0)
          + (if (case addressPostcode r of None \<Rightarrow> False
                 | Some p \<Rightarrow> startsWith (toUpperCase up p)
                              (toUpperCase up query))
             then 50
             else if includesStr (toUpperCase up (display_name r))
                       (toUpperCase up query)
             then 20 else 0);
          score = jsAdd bonus (jsMul (importanceOrZero r) 10)
      in if result_class r = js ''boundary''
            \<and> result_type r \<in> set [js ''administrative'', js ''county'', js ''city'',
                                    js ''suburb'', js ''borough'']
         then jsSub score 60 else score)"
    by (rule scoreResult_expand)
next
  show "startsWith (toUpperCase up (display_name r))
          (toUpperCase up query @ js '','')
        \<or> startsWith (toUpperCase up (display_name r))
             (toUpperCase up query @ js '' '')
       \<longrightarrow> includesStr (toUpperCase up (display_name r))
             (toUpperCase up query)"
    by (auto dest!: startsWith_append intro: startsWith_includesStr)
qed

text \<open>
  Claim C2, amended, at a postal code boundary with a matching label and a matching
  structured postcode: the score is 100 + 80 + 50 + 5, without the 20.
\<close>

theorem C2_prefix_match_score_witness:
  "startsWith (toUpperCase noUnicodeUpper (display_name postal_candidate))
      (toUpperCase noUnicodeUpper (js ''EC1A'') @ js '','')
   \<and> includesStr (toUpperCase noUnicodeUpper (display_name postal_candidate))
      (toUpperCase noUnicodeUpper (js ''EC1A''))
   \<and> scoreResult noUnicodeUpper postal_candidate (js ''EC1A'') = 100 + 80 + 50 + 5"
proof -
  have h: "startsWith (toUpperCase noUnicodeUpper (display_name postal_candidate))
      (toUpperCase noUnicodeUpper (js ''EC1A'') @ js '','')"
    by (simp add: candidate_eval string_eval)
  from C2_prefix_match_score [of noUnicodeUpper postal_candidate "js ''EC1A''"] h
  have incl: "includesStr (toUpperCase noUnicodeUpper (display_name postal_candidate))
      (toUpperCase noUnicodeUpper (js ''EC1A''))"
    by blast
  from C2_prefix_match_score [of noUnicodeUpper postal_candidate "js ''EC1A''"]
  have "scoreResult noUnicodeUpper postal_candidate (js ''EC1A'') = 100 + 80 + 50 + 5"
    by (simp add: candidate_eval string_eval jsAdd_def jsMul_def)
  with h incl show ?thesis by blast
qed

section \<open>Properties of the search and the orchestrator\<close>

subsection \<open>The loop over the fragments\<close>

lemma queries_simps [simp]:
  "queries [] = []"
  "queries (Query q # evs) = q # queries evs"
  "queries (Delay n # evs) = queries evs"
  "queries (evs @ evs') = queries evs @ queries evs'"
  by (simp_all add: queries_def)


lemma searchLoop_None:
  "i < length xs \<Longrightarrow> searchNominatim up fetch (xs ! i) = Inr None \<Longrightarrow>
   searchLoop up fetch xs i =
     (Query (xs ! i) # (if i < length xs - 1 then [Delay 1000] else [])
        @ fst (searchLoop up fetch xs (i + 1)),
      snd (searchLoop up fetch xs (i + 1)))"
  by (subst searchLoop.simps) simp

lemma searchLoop_Some:
  "i < length xs \<Longrightarrow> searchNominatim up fetch (xs ! i) = Inr (Some r) \<Longrightarrow>
   searchLoop up fetch xs i = ([Query (xs ! i)], Inr r)"
  by (subst searchLoop.simps) simp





subsection \<open>The search for one fragment\<close>





lemma trim_blank:
  assumes "\<forall>c \<in> set s. isWhitespace c"
  shows "trim s = []"
  using assms by (auto simp: trim_def dest: set_dropWhileD)

lemmas search_eval = searchNominatim_def fetch_only_EC1A_def fetch_503_SW1A_def hasShape_def
  sortByScore_def MINIMUM_CONFIDENCE_SCORE_def scoreResult_expand candidate_eval string_eval
  jsAdd_def jsSub_def jsMul_def

subsection \<open>The claims\<close>

text \<open>
  Claim C9: for every input that is empty or has white space only, and every behaviour of
  the search collaborator, \<open>fetchPostcodeBoundary\<close> throws the error
  \<open>Please enter a postcode.\<close> and causes no event at all, so no search.
\<close>

theorem C9_blank_input_rejected:
  assumes "\<forall>c \<in> set postcode. isWhitespace c"
  shows "fetchPostcodeBoundary up fetch postcode
           = ([], Inl (Error (js ''Please enter a postcode.'')))"
  using trim_blank [OF assms] by (simp add: fetchPostcodeBoundary_def)

text \<open>
  Claim C9 at the input made of a SPACE, a TAB, U+00A0 and U+FEFF.
\<close>

theorem C9_blank_input_rejected_witness:
  "isWhitespace SPACE \<and> isWhitespace 0x09 \<and> isWhitespace 0xA0 \<and> isWhitespace 0xFEFF
   \<and> fetchPostcodeBoundary noUnicodeUpper fetch_only_EC1A [SPACE, 0x09, 0xA0, 0xFEFF]
       = ([], Inl (Error (js ''Please enter a postcode.'')))"
proof -
  have a: "isWhitespace SPACE" "isWhitespace 0x09" "isWhitespace 0xA0" "isWhitespace 0xFEFF"
    by (simp_all add: isWhitespace_def)
  then have "\<forall>c \<in> set [SPACE, 0x09, 0xA0, 0xFEFF]. isWhitespace c" by simp
  from C9_blank_input_rejected [OF this] a show ?thesis by simp
qed



text \<open>
  The whole run of this example: two searches with one wait between them.
\<close>

lemma EC1A_1BB_run:
  "fetchPostcodeBoundary noUnicodeUpper fetch_only_EC1A (js ''EC1A 1BB'')
     = ([Query (js ''EC1A 1BB''), Delay 1000, Query (js ''EC1A'')], Inr postal_candidate)"
proof -
  let ?h = "getPostcodesToTry noUnicodeUpper (js ''EC1A 1BB'')"
  have h: "?h = [js ''EC1A 1BB'', js ''EC1A'', js ''EC1'', js ''EC'']"
    by (simp add: hierarchy_eval)
  have s0: "searchNominatim noUnicodeUpper fetch_only_EC1A (?h ! 0) = Inr None"
    unfolding h by (simp add: search_eval)
  have s1: "searchNominatim noUnicodeUpper fetch_only_EC1A (?h ! 1) = Inr (Some postal_candidate)"
    unfolding h by (simp add: search_eval)
  have "searchLoop noUnicodeUpper fetch_only_EC1A ?h 1 = ([Query (?h ! 1)], Inr postal_candidate)"
    using s1 by (intro searchLoop_Some) (simp_all add: h)
  moreover have "searchLoop noUnicodeUpper fetch_only_EC1A ?h 0 =
     (Query (?h ! 0) # (if 0 < length ?h - 1 then [Delay 1000] else [])
        @ fst (searchLoop noUnicodeUpper fetch_only_EC1A ?h (0 + 1)),
      snd (searchLoop noUnicodeUpper fetch_only_EC1A ?h (0 + 1)))"
    using s0 by (intro searchLoop_None) (simp_all add: h)
  ultimately have "searchLoop noUnicodeUpper fetch_only_EC1A ?h 0
     = ([Query (js ''EC1A 1BB''), Delay 1000, Query (js ''EC1A'')], Inr postal_candidate)"
    by (simp add: h)
  moreover have "trim (js ''EC1A 1BB'') \<noteq> []" by (simp add: string_eval)
  ultimately show ?thesis unfolding fetchPostcodeBoundary_def by (simp add: js_def)
qed




end
